theory Spec2Isabelle
  imports Main "HOL-Library.Word"
begin

section \<open>Strings and formatting\<close>

text \<open>
  Go strings are byte sequences; they are modelled as \<^typ>\<open>string\<close>. The program formats
  with \<^verbatim>\<open>fmt.Sprintf\<close> and string arguments only, and the only verb in its format
  strings is \<^verbatim>\<open>%s\<close>. \<open>Sprintf\<close> substitutes the arguments in order for the
  \<^verbatim>\<open>%s\<close> verbs; a substituted argument is not scanned again. As in Go, a verb with no
  argument left prints \<^verbatim>\<open>%!s(MISSING)\<close> and arguments left over at the end are reported
  as \<^verbatim>\<open>%!(EXTRA string=...)\<close>. Every other character is copied.
\<close>

definition newline :: string where
  "newline = [CHR 0x0A]"

fun extra_args :: "string list \<Rightarrow> string" where
  "extra_args [] = []"
| "extra_args [a] = ''string='' @ a"
| "extra_args (a # b # as) = ''string='' @ a @ '', '' @ extra_args (b # as)"

fun Sprintf :: "string \<Rightarrow> string list \<Rightarrow> string" where
  "Sprintf [] args = (if args = [] then [] else ''%!(EXTRA '' @ extra_args args @ '')'')"
| "Sprintf [c] args = c # Sprintf [] args"
| "Sprintf (c # d # fmt) args =
     (if c = CHR ''%'' \<and> d = CHR ''s''
      then (case args of
              [] \<Rightarrow> ''%!s(MISSING)'' @ Sprintf fmt []
            | a # as \<Rightarrow> a @ Sprintf fmt as)
      else c # Sprintf (d # fmt) args)"

section \<open>The proxy server and its constructor\<close>

text \<open>\<^verbatim>\<open>const INFURA_URL = "https://%s.infura.io/v3/%s"\<close>\<close>

definition INFURA_URL :: string where
  "INFURA_URL = ''https://%s.infura.io/v3/%s''"

text \<open>\<^verbatim>\<open>type ProxyServer struct { Port string; ProviderUrl string }\<close>\<close>

record ProxyServer =
  Port :: string
  ProviderUrl :: string

text \<open>
  \<^verbatim>\<open>NewProxyServer(port, providerUrl, network, projectId)\<close>: the provider defaults to
  Infura when no explicit URL is given. The constructor has no failure path.
\<close>

definition NewProxyServer :: "string \<Rightarrow> string \<Rightarrow> string \<Rightarrow> string \<Rightarrow> ProxyServer" where
  "NewProxyServer port providerUrl network projectId =
     (let providerUrl' =
            (if providerUrl = ''''
             then Sprintf INFURA_URL [network, projectId]
             else providerUrl)
      in \<lparr> Port = port, ProviderUrl = providerUrl' \<rparr>)"

section \<open>Requests, responses and the caller's response stream\<close>

text \<open>
  A header is Go's \<^verbatim>\<open>http.Header\<close>, a \<^verbatim>\<open>map[string][]string\<close>. The two-value
  lookup \<^verbatim>\<open>v, ok := m[k]\<close> gives the nil slice and \<open>False\<close> for a missing key.
\<close>

type_synonym Header = "string \<rightharpoonup> string list"

definition lookup :: "Header \<Rightarrow> string \<Rightarrow> string list \<times> bool" where
  "lookup m k = (case m k of None \<Rightarrow> ([], False) | Some v \<Rightarrow> (v, True))"

text \<open>The fields of \<^verbatim>\<open>*http.Request\<close> that the handler reads.\<close>

record Request =
  Method :: string
  RemoteAddr :: string
  Header :: Header
  Body :: string

text \<open>
  A body stream (\<^verbatim>\<open>io.Reader\<close>) delivers chunks of bytes and ends either with
  \<^verbatim>\<open>io.EOF\<close> or with a read error, for instance when the provider's connection drops.
\<close>

datatype reader = EOF | ReadErr string | Chunk string reader

fun delivered :: "reader \<Rightarrow> string" where
  "delivered EOF = []"
| "delivered (ReadErr e) = []"
| "delivered (Chunk bs rd) = bs @ delivered rd"

fun read_error :: "reader \<Rightarrow> string option" where
  "read_error EOF = None"
| "read_error (ReadErr e) = Some e"
| "read_error (Chunk bs rd) = read_error rd"

text \<open>The provider's answer, \<^verbatim>\<open>*http.Response\<close>.\<close>

record Response =
  StatusCode :: nat
  RespHeader :: Header
  RespBody :: reader

text \<open>
  The caller's \<^verbatim>\<open>http.ResponseWriter\<close>, with the contract of \<^verbatim>\<open>net/http\<close>:
  \<^verbatim>\<open>Header()\<close> is the header map the handler may change; \<^verbatim>\<open>WriteHeader\<close> commits a
  status code together with the header map as it is at that moment, and only the first call
  counts; \<^verbatim>\<open>Write\<close> calls \<^verbatim>\<open>WriteHeader(http.StatusOK)\<close> first when nothing has
  been committed yet, and then appends the bytes to the body. The stream accepts every write,
  so that a copy into it can only fail on the reading side.
\<close>

record ResponseWriter =
  handlerHeader :: Header
  wroteHeader :: "(nat \<times> Header) option"
  written :: string

definition StatusOK :: nat where
  "StatusOK = 200"

definition WriteHeader :: "nat \<Rightarrow> ResponseWriter \<Rightarrow> ResponseWriter" where
  "WriteHeader code rw =
     (if wroteHeader rw = None then rw\<lparr> wroteHeader := Some (code, handlerHeader rw) \<rparr> else rw)"

definition Write :: "string \<Rightarrow> ResponseWriter \<Rightarrow> ResponseWriter" where
  "Write bs rw =
     (let rw' = (if wroteHeader rw = None then WriteHeader StatusOK rw else rw)
      in rw'\<lparr> written := written rw' @ bs \<rparr>)"

definition Header_Set :: "string \<Rightarrow> string \<Rightarrow> ResponseWriter \<Rightarrow> ResponseWriter" where
  "Header_Set k v rw = rw\<lparr> handlerHeader := (handlerHeader rw)(k \<mapsto> [v]) \<rparr>"

section \<open>The world around the handler\<close>

text \<open>
  The handler acts on the caller's response stream, on the process-wide log, and on the
  network: \<open>posts\<close> lists the POST requests issued (URL, content type, body),
  \<open>open_bodies\<close> the provider response bodies currently held open and \<open>closed_bodies\<close>
  the ones closed so far.
\<close>

record World =
  writer :: ResponseWriter
  log_lines :: "string list"
  posts :: "(string \<times> string \<times> string) list"
  open_bodies :: "reader list"
  closed_bodies :: "reader list"

text \<open>
  The network decides what a POST to a URL with a content type and a body gives: an error
  (its message) when the request cannot be issued or the connection fails, and the
  provider's response otherwise.
\<close>

type_synonym Network = "string \<Rightarrow> string \<Rightarrow> string \<Rightarrow> string + Response"

definition log_Println :: "string \<Rightarrow> World \<Rightarrow> World" where
  "log_Println msg s = s\<lparr> log_lines := log_lines s @ [msg] \<rparr>"

definition Fprintln :: "string \<Rightarrow> World \<Rightarrow> World" where
  "Fprintln msg s = s\<lparr> writer := Write (msg @ newline) (writer s) \<rparr>"

definition http_Post :: "Network \<Rightarrow> string \<Rightarrow> string \<Rightarrow> string \<Rightarrow> World \<Rightarrow> (string + Response) \<times> World" where
  "http_Post net url contentType body s =
     (let s' = s\<lparr> posts := posts s @ [(url, contentType, body)] \<rparr>
      in case net url contentType body of
           Inl err \<Rightarrow> (Inl err, s')
         | Inr response \<Rightarrow> (Inr response, s'\<lparr> open_bodies := RespBody response # open_bodies s' \<rparr>))"

definition Body_Close :: "Response \<Rightarrow> World \<Rightarrow> World" where
  "Body_Close response s =
     s\<lparr> open_bodies := remove1 (RespBody response) (open_bodies s),
        closed_bodies := closed_bodies s @ [RespBody response] \<rparr>"

text \<open>
  \<^verbatim>\<open>io.Copy(w, src)\<close> reads \<open>src\<close> until \<^verbatim>\<open>io.EOF\<close> or an error and writes every
  non-empty chunk it has read to \<open>w\<close>; end of file is not an error.
\<close>

fun io_Copy :: "reader \<Rightarrow> World \<Rightarrow> string option \<times> World" where
  "io_Copy EOF s = (None, s)"
| "io_Copy (ReadErr e) s = (Some e, s)"
| "io_Copy (Chunk bs rd) s =
     io_Copy rd (if bs = [] then s else s\<lparr> writer := Write bs (writer s) \<rparr>)"

section \<open>The request handler\<close>

text \<open>
  \<^verbatim>\<open>ServeHTTP\<close>, statement by statement. The deferred \<^verbatim>\<open>response.Body.Close()\<close> is
  registered once the POST has succeeded and runs when the handler returns, whichever
  \<^verbatim>\<open>return\<close> that is; it is therefore applied to the outcome of the rest of the body.
\<close>

definition ServeHTTP :: "ProxyServer \<Rightarrow> Network \<Rightarrow> Request \<Rightarrow> World \<Rightarrow> World" where
  "ServeHTTP p net r s0 =
     (let s1 = log_Println (Sprintf ''New %s request received from %s'' [Method r, RemoteAddr r]) s0;
          (contentTypes, ok) = lookup (Header r) ''Content-Type''
      in if \<not> ok \<or> length contentTypes = 0
         then Fprintln ''Request Content-Type header not specified''
                (log_Println ''Request Content-Type header not specified'' s1)
         else
           (case http_Post net (ProviderUrl p) (contentTypes ! 0) (Body r) s1 of
              (Inl err, s2) \<Rightarrow>
                Fprintln (''Error forwarding request to remote server: '' @ err)
                  (log_Println (''Error forwarding request to remote server: '' @ err) s2)
            | (Inr response, s2) \<Rightarrow>
                Body_Close response
                  (let s3 = s2\<lparr> writer := Header_Set ''Content-Type'' ''application/json'' (writer s2) \<rparr>
                   in case io_Copy (RespBody response) s3 of
                        (Some err, s4) \<Rightarrow>
                          Fprintln (''Error reading response from remote server: '' @ err)
                            (log_Println (''Error reading response from remote server: '' @ err) s4)
                      | (None, s4) \<Rightarrow>
                          log_Println (Sprintf ''Response sent to %s successfully'' [RemoteAddr r]) s4)))"

section \<open>The Geth cache size\<close>

text \<open>
  \<^verbatim>\<open>calculateGethCache\<close> reads the total system memory, a \<^verbatim>\<open>uint64\<close> number of
  bytes, from \<^verbatim>\<open>memory.TotalMemory()\<close>. The value read is the parameter here; the
  divisions are Go's unsigned 64-bit divisions and the result is a \<^verbatim>\<open>uint64\<close>.
\<close>

definition calculateGethCache :: "64 word \<Rightarrow> 64 word" where
  "calculateGethCache TotalMemory =
     (let totalMemoryGB = TotalMemory div 1024 div 1024 div 1024
      in if totalMemoryGB = 0 then 0
         else if totalMemoryGB < 9 then 256
         else if totalMemoryGB < 13 then 2048
         else if totalMemoryGB < 17 then 4096
         else if totalMemoryGB < 25 then 8192
         else if totalMemoryGB < 33 then 12288
         else 16384)"

section \<open>Example data\<close>

text \<open>
  A world in which nothing has happened yet, as the server hands it to the handler: an
  empty header map, no status committed, no body bytes.
\<close>

definition fresh_World :: World where
  "fresh_World =
     \<lparr> writer = \<lparr> handlerHeader = Map.empty, wroteHeader = None, written = [] \<rparr>,
       log_lines = [], posts = [], open_bodies = [], closed_bodies = [] \<rparr>"

definition blockNumber_request :: Request where
  "blockNumber_request =
     \<lparr> Method = ''POST'', RemoteAddr = ''127.0.0.1:40312'',
       Header = [''Content-Type'' \<mapsto> [''application/json'', ''text/plain'']],
       Body = ''[eth_blockNumber]'' \<rparr>"

definition bare_request :: Request where
  "bare_request = blockNumber_request\<lparr> Header := Map.empty \<rparr>"

definition blockNumber_response :: Response where
  "blockNumber_response =
     \<lparr> StatusCode = 200,
       RespHeader = [''Content-Type'' \<mapsto> [''text/plain'']],
       RespBody = Chunk ''[0x'' (Chunk ''10]'' EOF) \<rparr>"

definition dropped_response :: Response where
  "dropped_response =
     \<lparr> StatusCode = 200,
       RespHeader = [''Content-Type'' \<mapsto> [''application/json'']],
       RespBody = Chunk ''[0x'' (ReadErr ''unexpected EOF'') \<rparr>"

text \<open>
  The request as the server hands it over when the caller sent a \<^verbatim>\<open>Content-Type:\<close> line
  with nothing after the colon: the header is present and its only value is the empty string.
\<close>

definition empty_value_request :: Request where
  "empty_value_request = blockNumber_request\<lparr> Header := [''Content-Type'' \<mapsto> ['''']] \<rparr>"

definition mainnet_proxy :: ProxyServer where
  "mainnet_proxy = NewProxyServer ''8545'' '''' ''mainnet'' ''abc123''"

definition reachable :: Network where
  "reachable url contentType body = Inr blockNumber_response"

definition dropping :: Network where
  "dropping url contentType body = Inr dropped_response"

definition unreachable :: Network where
  "unreachable url contentType body = Inl ''dial tcp: connection refused''"

section \<open>Properties of the constructor\<close>

lemma Sprintf_INFURA_URL:
  "Sprintf INFURA_URL [network, projectId] = ''https://'' @ network @ ''.infura.io/v3/'' @ projectId"
  by (simp add: INFURA_URL_def)

text \<open>
  Claim C5. With an empty explicit provider URL the constructed server's provider URL is
  the template \<^verbatim>\<open>https://{network}.infura.io/v3/{projectID}\<close> with the network name and
  the project id put in; for network \<open>mainnet\<close> and project id \<open>abc123\<close> it is
  \<^verbatim>\<open>https://mainnet.infura.io/v3/abc123\<close>.
\<close>

theorem NewProxyServer_default_url:
  "ProviderUrl (NewProxyServer port '''' network projectId)
     = ''https://'' @ network @ ''.infura.io/v3/'' @ projectId
   \<and> ProviderUrl (NewProxyServer port '''' ''mainnet'' ''abc123'')
     = ''https://mainnet.infura.io/v3/abc123''"
  by (simp add: NewProxyServer_def Sprintf_INFURA_URL)

text \<open>
  Claim C6. With a non-empty explicit provider URL the constructed server has that URL and
  the given port, and the network name and the project id have no influence on the result.
\<close>

theorem NewProxyServer_explicit_url:
  assumes "providerUrl \<noteq> ''''"
  shows "ProviderUrl (NewProxyServer port providerUrl network projectId) = providerUrl
       \<and> Port (NewProxyServer port providerUrl network projectId) = port
       \<and> NewProxyServer port providerUrl network projectId
           = NewProxyServer port providerUrl network' projectId'"
  using assms by (simp add: NewProxyServer_def)

theorem NewProxyServer_explicit_url_witness:
  "''http://localhost:8545'' \<noteq> ''''
   \<and> ProviderUrl (NewProxyServer ''8545'' ''http://localhost:8545'' ''goerli'' ''abc123'')
       = ''http://localhost:8545''
   \<and> Port (NewProxyServer ''8545'' ''http://localhost:8545'' ''goerli'' ''abc123'') = ''8545''
   \<and> NewProxyServer ''8545'' ''http://localhost:8545'' ''goerli'' ''abc123''
       = NewProxyServer ''8545'' ''http://localhost:8545'' ''mainnet'' ''''"
proof -
  have ne: "''http://localhost:8545'' \<noteq> ''''" by simp
  show ?thesis
    using ne NewProxyServer_explicit_url [OF ne, of "''8545''" "''goerli''" "''abc123''" "''mainnet''" "''''"]
    by (simp add: NewProxyServer_def)
qed

text \<open>
  Claim C7. Whatever the four arguments are, the empty string included, the constructed
  server's provider URL is not empty; with all four arguments empty it is
  \<^verbatim>\<open>https://.infura.io/v3/\<close>. Nothing changes the server between its construction and
  the start of listening.
\<close>

theorem NewProxyServer_url_nonempty:
  "ProviderUrl (NewProxyServer port providerUrl network projectId) \<noteq> ''''
   \<and> ProviderUrl (NewProxyServer '''' '''' '''' '''') = ''https://.infura.io/v3/''"
  by (simp add: NewProxyServer_def Sprintf_INFURA_URL)

section \<open>Properties of the request handler\<close>

subsection \<open>The response stream and the copy\<close>

text \<open>Two writes in a row are one write of the concatenation.\<close>

lemma Write_Write: "Write bs2 (Write bs1 rw) = Write (bs1 @ bs2) rw"
  by (simp add: Write_def WriteHeader_def)

lemma Write_fields:
  "handlerHeader (Write bs rw) = handlerHeader rw"
  "written (Write bs rw) = written rw @ bs"
  "wroteHeader (Write bs rw) =
     (case wroteHeader rw of None \<Rightarrow> Some (StatusOK, handlerHeader rw) | Some c \<Rightarrow> Some c)"
  by (simp_all add: Write_def WriteHeader_def split: option.splits)

lemma Header_Set_fields:
  "handlerHeader (Header_Set k v rw) = (handlerHeader rw)(k \<mapsto> [v])"
  "written (Header_Set k v rw) = written rw"
  "wroteHeader (Header_Set k v rw) = wroteHeader rw"
  by (simp_all add: Header_Set_def)

text \<open>
  The copy returns the stream's read error, if any, and has written exactly the bytes the
  stream delivered before it ended; when there were none, the response is untouched.
\<close>

lemma io_Copy_eq:
  "io_Copy rd s =
     (read_error rd,
      if delivered rd = [] then s else s\<lparr> writer := Write (delivered rd) (writer s) \<rparr>)"
proof (induction rd arbitrary: s)
  case EOF
  show ?case by simp
next
  case (ReadErr e)
  show ?case by simp
next
  case (Chunk bs rd)
  show ?case by (simp add: Chunk.IH Write_Write)
qed

subsection \<open>The handler, path by path\<close>

text \<open>No usable \<^verbatim>\<open>Content-Type\<close>: two log lines and one line in the response.\<close>

lemma ServeHTTP_absent:
  assumes "Header r ''Content-Type'' = None \<or> Header r ''Content-Type'' = Some []"
  shows "ServeHTTP p net r s =
     Fprintln ''Request Content-Type header not specified''
       (log_Println ''Request Content-Type header not specified''
         (log_Println (Sprintf ''New %s request received from %s'' [Method r, RemoteAddr r]) s))"
  using assms unfolding ServeHTTP_def Let_def lookup_def by auto

text \<open>Otherwise the first value of the header goes into the POST.\<close>

lemma ServeHTTP_present:
  assumes "Header r ''Content-Type'' = Some (ct # cts)"
  shows "ServeHTTP p net r s =
     (case http_Post net (ProviderUrl p) ct (Body r)
             (log_Println (Sprintf ''New %s request received from %s'' [Method r, RemoteAddr r]) s) of
        (Inl err, s2) \<Rightarrow>
          Fprintln (''Error forwarding request to remote server: '' @ err)
            (log_Println (''Error forwarding request to remote server: '' @ err) s2)
      | (Inr response, s2) \<Rightarrow>
          Body_Close response
            (case io_Copy (RespBody response)
                    (s2\<lparr> writer := Header_Set ''Content-Type'' ''application/json'' (writer s2) \<rparr>) of
               (Some err, s4) \<Rightarrow>
                 Fprintln (''Error reading response from remote server: '' @ err)
                   (log_Println (''Error reading response from remote server: '' @ err) s4)
             | (None, s4) \<Rightarrow>
                 log_Println (Sprintf ''Response sent to %s successfully'' [RemoteAddr r]) s4))"
  using assms unfolding ServeHTTP_def Let_def lookup_def by simp

text \<open>The POST fails: it is recorded, logged and reported to the caller.\<close>

lemma ServeHTTP_unreachable:
  assumes "Header r ''Content-Type'' = Some (ct # cts)"
      and "net (ProviderUrl p) ct (Body r) = Inl e"
  shows "ServeHTTP p net r s =
     Fprintln (''Error forwarding request to remote server: '' @ e)
       (log_Println (''Error forwarding request to remote server: '' @ e)
         ((log_Println (Sprintf ''New %s request received from %s'' [Method r, RemoteAddr r]) s)
            \<lparr> posts := posts s @ [(ProviderUrl p, ct, Body r)] \<rparr>))"
  using assms(2) by (simp add: ServeHTTP_present [OF assms(1)] http_Post_def log_Println_def)

text \<open>The POST succeeds and the provider's body is read to its end.\<close>

lemma ServeHTTP_copied:
  assumes "Header r ''Content-Type'' = Some (ct # cts)"
      and "net (ProviderUrl p) ct (Body r) = Inr response"
      and "read_error (RespBody response) = None"
  shows "ServeHTTP p net r s =
     s\<lparr> writer := (if delivered (RespBody response) = []
                   then Header_Set ''Content-Type'' ''application/json'' (writer s)
                   else Write (delivered (RespBody response))
                          (Header_Set ''Content-Type'' ''application/json'' (writer s))),
        log_lines := log_lines s
           @ [Sprintf ''New %s request received from %s'' [Method r, RemoteAddr r],
              Sprintf ''Response sent to %s successfully'' [RemoteAddr r]],
        posts := posts s @ [(ProviderUrl p, ct, Body r)],
        closed_bodies := closed_bodies s @ [RespBody response] \<rparr>"
  using assms(2,3)
  by (simp add: ServeHTTP_present [OF assms(1)] http_Post_def log_Println_def Body_Close_def
      io_Copy_eq)

text \<open>The POST succeeds and the provider's body breaks with a read error.\<close>

lemma ServeHTTP_copy_broken:
  assumes "Header r ''Content-Type'' = Some (ct # cts)"
      and "net (ProviderUrl p) ct (Body r) = Inr response"
      and "read_error (RespBody response) = Some e"
  shows "ServeHTTP p net r s =
     s\<lparr> writer := Write (delivered (RespBody response)
                          @ ''Error reading response from remote server: '' @ e @ newline)
                     (Header_Set ''Content-Type'' ''application/json'' (writer s)),
        log_lines := log_lines s
           @ [Sprintf ''New %s request received from %s'' [Method r, RemoteAddr r],
              ''Error reading response from remote server: '' @ e],
        posts := posts s @ [(ProviderUrl p, ct, Body r)],
        closed_bodies := closed_bodies s @ [RespBody response] \<rparr>"
  using assms(2,3)
  by (simp add: ServeHTTP_present [OF assms(1)] http_Post_def log_Println_def Body_Close_def
      io_Copy_eq Fprintln_def Write_Write)

text \<open>Whenever the header has a first value, exactly one POST is issued, with that value.\<close>

lemma ServeHTTP_posts:
  assumes "Header r ''Content-Type'' = Some (ct # cts)"
  shows "posts (ServeHTTP p net r s) = posts s @ [(ProviderUrl p, ct, Body r)]"
proof (cases "net (ProviderUrl p) ct (Body r)")
  case (Inl e)
  show ?thesis
    by (simp add: ServeHTTP_unreachable [of r ct cts net p e, OF assms Inl] Fprintln_def
        log_Println_def)
next
  case (Inr response)
  show ?thesis
  proof (cases "read_error (RespBody response)")
    case None
    show ?thesis
      by (simp add: ServeHTTP_copied [of r ct cts net p response, OF assms Inr None])
  next
    case (Some e)
    show ?thesis
      by (simp add: ServeHTTP_copy_broken [of r ct cts net p response e, OF assms Inr Some])
  qed
qed

text \<open>
  A header that is present with the empty string as its only value is not a missing header
  for the handler: the request is forwarded, with the empty content type.
\<close>

lemma ServeHTTP_empty_string_value:
  assumes "Header r ''Content-Type'' = Some ['''']"
  shows "posts (ServeHTTP p net r s) = posts s @ [(ProviderUrl p, '''', Body r)]"
  using assms by (rule ServeHTTP_posts)

subsection \<open>Missing content type\<close>

text \<open>
  Claim C1, for a header without values. When the request's \<^verbatim>\<open>Content-Type\<close> header
  is absent, or present with no values at all (the handler's test
  \<^verbatim>\<open>!ok || len(contentTypes) == 0\<close>), the handler writes the failure message to the
  response body and stops: the resulting world is the initial one with that one line written
  and two log lines added, so no POST has been issued, no provider body is open, and the
  network has not been consulted.
\<close>

theorem ServeHTTP_missing_content_type:
  assumes "Header r ''Content-Type'' = None \<or> Header r ''Content-Type'' = Some []"
  shows "ServeHTTP p net r s
           = s\<lparr> writer := Write (''Request Content-Type header not specified'' @ newline) (writer s),
                log_lines := log_lines s
                  @ [Sprintf ''New %s request received from %s'' [Method r, RemoteAddr r],
                     ''Request Content-Type header not specified''] \<rparr>
       \<and> written (writer (ServeHTTP p net r s))
           = written (writer s) @ ''Request Content-Type header not specified'' @ newline
       \<and> posts (ServeHTTP p net r s) = posts s
       \<and> open_bodies (ServeHTTP p net r s) = open_bodies s"
  by (simp add: ServeHTTP_absent [OF assms] Fprintln_def log_Println_def Write_fields)

theorem ServeHTTP_missing_content_type_witness:
  "(Header bare_request ''Content-Type'' = None \<or> Header bare_request ''Content-Type'' = Some [])
   \<and> written (writer (ServeHTTP mainnet_proxy reachable bare_request fresh_World))
       = ''Request Content-Type header not specified'' @ newline
   \<and> posts (ServeHTTP mainnet_proxy reachable bare_request fresh_World) = []
   \<and> open_bodies (ServeHTTP mainnet_proxy reachable bare_request fresh_World) = []"
proof -
  have h: "Header bare_request ''Content-Type'' = None \<or> Header bare_request ''Content-Type'' = Some []"
    by (simp add: bare_request_def)
  show ?thesis
    using h ServeHTTP_missing_content_type [OF h, of mainnet_proxy reachable fresh_World]
    by (simp add: fresh_World_def Write_fields)
qed

text \<open>
  Claim C1 does not extend to a header that is present with an empty value, which is what a
  \<^verbatim>\<open>Content-Type:\<close> line with nothing after the colon gives: the handler's test looks
  at the number of values, not at their content, so the request is forwarded with the empty
  content type and the caller gets the provider's bytes, not a failure message.
\<close>

theorem ServeHTTP_empty_content_type_counterexample:
  "Header empty_value_request ''Content-Type'' = Some ['''']
   \<and> posts (ServeHTTP mainnet_proxy reachable empty_value_request fresh_World)
       = [(''https://mainnet.infura.io/v3/abc123'', '''', ''[eth_blockNumber]'')]
   \<and> posts (ServeHTTP mainnet_proxy reachable empty_value_request fresh_World)
       \<noteq> posts fresh_World
   \<and> written (writer (ServeHTTP mainnet_proxy reachable empty_value_request fresh_World))
       = ''[0x10]''"
proof -
  have h1: "Header empty_value_request ''Content-Type'' = Some ('''' # [])"
    by (simp add: empty_value_request_def)
  have h2: "reachable (ProviderUrl mainnet_proxy) '''' (Body empty_value_request)
       = Inr blockNumber_response"
    by (simp add: reachable_def)
  have h3: "read_error (RespBody blockNumber_response) = None"
    by (simp add: blockNumber_response_def)
  have url: "ProviderUrl mainnet_proxy = ''https://mainnet.infura.io/v3/abc123''"
    by (simp add: mainnet_proxy_def NewProxyServer_def INFURA_URL_def)
  have body: "Body empty_value_request = ''[eth_blockNumber]''"
    by (simp add: empty_value_request_def blockNumber_request_def)
  have out: "delivered (RespBody blockNumber_response) = ''[0x10]''"
    by (simp add: blockNumber_response_def)
  show ?thesis
    using h1
    by (simp add: ServeHTTP_copied [of empty_value_request "''''" "[]" reachable mainnet_proxy
          blockNumber_response, OF h1 h2 h3]
        fresh_World_def url body out Write_fields Header_Set_fields)
qed

subsection \<open>Relaying the provider's answer\<close>

text \<open>
  Claim C2. When the request carries a \<^verbatim>\<open>Content-Type\<close> header, the POST succeeds
  and the provider's body delivers the bytes \<open>B\<close> up to its end, the handler first sets
  the caller's \<^verbatim>\<open>Content-Type\<close> to \<^verbatim>\<open>application/json\<close>, whatever header the
  provider sent, and then writes exactly \<open>B\<close> to the caller's response.
\<close>

theorem ServeHTTP_relays_body:
  assumes "Header r ''Content-Type'' = Some (ct # cts)"
      and "net (ProviderUrl p) ct (Body r) = Inr response"
      and "read_error (RespBody response) = None"
      and "delivered (RespBody response) = B"
  shows "writer (ServeHTTP p net r s)
           = (if B = [] then Header_Set ''Content-Type'' ''application/json'' (writer s)
              else Write B (Header_Set ''Content-Type'' ''application/json'' (writer s)))
       \<and> handlerHeader (writer (ServeHTTP p net r s))
           = (handlerHeader (writer s))(''Content-Type'' \<mapsto> [''application/json''])
       \<and> written (writer (ServeHTTP p net r s)) = written (writer s) @ B"
  using assms(4)
  by (simp add: ServeHTTP_copied [of r ct cts net p response, OF assms(1,2,3)]
      Write_fields Header_Set_fields)

theorem ServeHTTP_relays_body_witness:
  "Header blockNumber_request ''Content-Type'' = Some [''application/json'', ''text/plain'']
   \<and> reachable (ProviderUrl mainnet_proxy) ''application/json'' (Body blockNumber_request)
       = Inr blockNumber_response
   \<and> read_error (RespBody blockNumber_response) = None
   \<and> delivered (RespBody blockNumber_response) = ''[0x10]''
   \<and> RespHeader blockNumber_response ''Content-Type'' = Some [''text/plain'']
   \<and> handlerHeader (writer (ServeHTTP mainnet_proxy reachable blockNumber_request fresh_World))
        ''Content-Type'' = Some [''application/json'']
   \<and> wroteHeader (writer (ServeHTTP mainnet_proxy reachable blockNumber_request fresh_World))
        = Some (200, [''Content-Type'' \<mapsto> [''application/json'']])
   \<and> written (writer (ServeHTTP mainnet_proxy reachable blockNumber_request fresh_World))
        = ''[0x10]''"
proof -
  have h1: "Header blockNumber_request ''Content-Type'' = Some (''application/json'' # [''text/plain''])"
    by (simp add: blockNumber_request_def)
  have h2: "reachable (ProviderUrl mainnet_proxy) ''application/json'' (Body blockNumber_request)
       = Inr blockNumber_response"
    by (simp add: reachable_def)
  have h3: "read_error (RespBody blockNumber_response) = None"
    by (simp add: blockNumber_response_def)
  have h4: "delivered (RespBody blockNumber_response) = ''[0x10]''"
    by (simp add: blockNumber_response_def)
  have h5: "RespHeader blockNumber_response ''Content-Type'' = Some [''text/plain'']"
    by (simp add: blockNumber_response_def)
  show ?thesis
    using h1 h2 h3 h4 h5 ServeHTTP_relays_body [of blockNumber_request "''application/json''" "[''text/plain'']"
        reachable mainnet_proxy blockNumber_response "''[0x10]''" fresh_World, OF h1 h2 h3 h4]
    by (simp add: fresh_World_def Write_fields Header_Set_fields StatusOK_def)
qed

text \<open>
  Claim C3. When the copy of the provider's body breaks after the bytes \<open>P\<close>, the
  handler writes the failure message after \<open>P\<close>: the response holds \<open>P\<close> followed by
  the message, its \<^verbatim>\<open>Content-Type\<close> was set to \<^verbatim>\<open>application/json\<close> before
  anything was written, and exactly one POST was issued (no retry).
\<close>

theorem ServeHTTP_copy_failure:
  assumes "Header r ''Content-Type'' = Some (ct # cts)"
      and "net (ProviderUrl p) ct (Body r) = Inr response"
      and "read_error (RespBody response) = Some e"
      and "delivered (RespBody response) = P"
  shows "writer (ServeHTTP p net r s)
           = Write (''Error reading response from remote server: '' @ e @ newline)
               (if P = [] then Header_Set ''Content-Type'' ''application/json'' (writer s)
                else Write P (Header_Set ''Content-Type'' ''application/json'' (writer s)))
       \<and> written (writer (ServeHTTP p net r s))
           = written (writer s) @ P @ ''Error reading response from remote server: '' @ e @ newline
       \<and> handlerHeader (writer (ServeHTTP p net r s)) ''Content-Type'' = Some [''application/json'']
       \<and> wroteHeader (writer (ServeHTTP p net r s))
           = (case wroteHeader (writer s) of
                None \<Rightarrow> Some (StatusOK, (handlerHeader (writer s))(''Content-Type'' \<mapsto> [''application/json'']))
              | Some c \<Rightarrow> Some c)
       \<and> posts (ServeHTTP p net r s) = posts s @ [(ProviderUrl p, ct, Body r)]"
  using assms(4)
  by (simp add: ServeHTTP_copy_broken [of r ct cts net p response e, OF assms(1,2,3)]
      Write_Write Write_fields Header_Set_fields split: option.splits)

theorem ServeHTTP_copy_failure_witness:
  "Header blockNumber_request ''Content-Type'' = Some [''application/json'', ''text/plain'']
   \<and> dropping (ProviderUrl mainnet_proxy) ''application/json'' (Body blockNumber_request)
       = Inr dropped_response
   \<and> read_error (RespBody dropped_response) = Some ''unexpected EOF''
   \<and> delivered (RespBody dropped_response) = ''[0x''
   \<and> written (writer (ServeHTTP mainnet_proxy dropping blockNumber_request fresh_World))
       = ''[0xError reading response from remote server: unexpected EOF'' @ newline
   \<and> wroteHeader (writer (ServeHTTP mainnet_proxy dropping blockNumber_request fresh_World))
       = Some (200, [''Content-Type'' \<mapsto> [''application/json'']])
   \<and> posts (ServeHTTP mainnet_proxy dropping blockNumber_request fresh_World)
       = [(''https://mainnet.infura.io/v3/abc123'', ''application/json'', ''[eth_blockNumber]'')]"
proof -
  have h1: "Header blockNumber_request ''Content-Type'' = Some (''application/json'' # [''text/plain''])"
    by (simp add: blockNumber_request_def)
  have h2: "dropping (ProviderUrl mainnet_proxy) ''application/json'' (Body blockNumber_request)
       = Inr dropped_response"
    by (simp add: dropping_def)
  have h3: "read_error (RespBody dropped_response) = Some ''unexpected EOF''"
    by (simp add: dropped_response_def)
  have h4: "delivered (RespBody dropped_response) = ''[0x''"
    by (simp add: dropped_response_def)
  have url: "ProviderUrl mainnet_proxy = ''https://mainnet.infura.io/v3/abc123''"
    by (simp add: mainnet_proxy_def NewProxyServer_def INFURA_URL_def)
  have body: "Body blockNumber_request = ''[eth_blockNumber]''"
    by (simp add: blockNumber_request_def)
  show ?thesis
    using h1 h2 h3 h4
      ServeHTTP_copy_failure [of blockNumber_request "''application/json''" "[''text/plain'']"
        dropping mainnet_proxy dropped_response "''unexpected EOF''" "''[0x''" fresh_World,
        OF h1 h2 h3 h4]
    by (simp add: fresh_World_def StatusOK_def url body Write_fields Header_Set_fields)
qed

text \<open>
  Claim C4. Whenever the POST succeeds, the provider's response body is closed when the
  handler returns, whether the copy reached the end of the body or broke: no body opened by
  the handler is left open.
\<close>

theorem ServeHTTP_closes_body:
  assumes "Header r ''Content-Type'' = Some (ct # cts)"
      and "net (ProviderUrl p) ct (Body r) = Inr response"
  shows "open_bodies (ServeHTTP p net r s) = open_bodies s
       \<and> closed_bodies (ServeHTTP p net r s) = closed_bodies s @ [RespBody response]"
proof (cases "read_error (RespBody response)")
  case None
  show ?thesis
    by (simp add: ServeHTTP_copied [of r ct cts net p response, OF assms None])
next
  case (Some e)
  show ?thesis
    by (simp add: ServeHTTP_copy_broken [of r ct cts net p response e, OF assms Some])
qed

theorem ServeHTTP_closes_body_witness:
  "Header blockNumber_request ''Content-Type'' = Some [''application/json'', ''text/plain'']
   \<and> dropping (ProviderUrl mainnet_proxy) ''application/json'' (Body blockNumber_request)
       = Inr dropped_response
   \<and> read_error (RespBody dropped_response) \<noteq> None
   \<and> open_bodies (ServeHTTP mainnet_proxy dropping blockNumber_request fresh_World) = []
   \<and> closed_bodies (ServeHTTP mainnet_proxy dropping blockNumber_request fresh_World)
       = [RespBody dropped_response]"
proof -
  have h1: "Header blockNumber_request ''Content-Type'' = Some (''application/json'' # [''text/plain''])"
    by (simp add: blockNumber_request_def)
  have h2: "dropping (ProviderUrl mainnet_proxy) ''application/json'' (Body blockNumber_request)
       = Inr dropped_response"
    by (simp add: dropping_def)
  have h3: "read_error (RespBody dropped_response) \<noteq> None"
    by (simp add: dropped_response_def)
  show ?thesis
    using h1 h2 h3
      ServeHTTP_closes_body [of blockNumber_request "''application/json''" "[''text/plain'']"
        dropping mainnet_proxy dropped_response fresh_World, OF h1 h2]
    by (simp add: fresh_World_def)
qed

subsection \<open>What the error paths leave alone\<close>

text \<open>
  Claim C8. On the missing-\<^verbatim>\<open>Content-Type\<close> path and on the path where the POST
  fails, the caller's response is changed by one write of the error line and nothing else:
  the header map is as before and no status code is set by the handler, so the status that
  goes out with the first write is the implicit \<^verbatim>\<open>200\<close>.
\<close>

theorem ServeHTTP_error_paths_frame:
  assumes "(Header r ''Content-Type'' = None \<or> Header r ''Content-Type'' = Some [])
             \<and> msg = ''Request Content-Type header not specified''
         \<or> (\<exists>ct cts e. Header r ''Content-Type'' = Some (ct # cts)
             \<and> net (ProviderUrl p) ct (Body r) = Inl e
             \<and> msg = ''Error forwarding request to remote server: '' @ e)"
  shows "writer (ServeHTTP p net r s) = Write (msg @ newline) (writer s)
       \<and> handlerHeader (writer (ServeHTTP p net r s)) = handlerHeader (writer s)
       \<and> wroteHeader (writer (ServeHTTP p net r s))
           = (case wroteHeader (writer s) of
                None \<Rightarrow> Some (StatusOK, handlerHeader (writer s))
              | Some c \<Rightarrow> Some c)
       \<and> written (writer (ServeHTTP p net r s)) = written (writer s) @ msg @ newline"
  using assms
proof (elim disjE conjE exE)
  assume "Header r ''Content-Type'' = None" and "msg = ''Request Content-Type header not specified''"
  then show ?thesis
    by (simp add: ServeHTTP_absent Fprintln_def log_Println_def Write_fields)
next
  assume "Header r ''Content-Type'' = Some []" and "msg = ''Request Content-Type header not specified''"
  then show ?thesis
    by (simp add: ServeHTTP_absent Fprintln_def log_Println_def Write_fields)
next
  fix ct cts e
  assume h: "Header r ''Content-Type'' = Some (ct # cts)"
            "net (ProviderUrl p) ct (Body r) = Inl e"
     and m: "msg = ''Error forwarding request to remote server: '' @ e"
  show ?thesis
    by (simp add: ServeHTTP_unreachable [of r ct cts net p e, OF h] m Fprintln_def log_Println_def
        Write_fields)
qed

theorem ServeHTTP_error_paths_frame_witness:
  "Header bare_request ''Content-Type'' = None
   \<and> writer (ServeHTTP mainnet_proxy reachable bare_request fresh_World)
       = \<lparr> handlerHeader = Map.empty, wroteHeader = Some (200, Map.empty),
           written = ''Request Content-Type header not specified'' @ newline \<rparr>
   \<and> Header blockNumber_request ''Content-Type'' = Some [''application/json'', ''text/plain'']
   \<and> unreachable (ProviderUrl mainnet_proxy) ''application/json'' (Body blockNumber_request)
       = Inl ''dial tcp: connection refused''
   \<and> writer (ServeHTTP mainnet_proxy unreachable blockNumber_request fresh_World)
       = \<lparr> handlerHeader = Map.empty, wroteHeader = Some (200, Map.empty),
           written = ''Error forwarding request to remote server: dial tcp: connection refused''
                     @ newline \<rparr>"
proof -
  have h0: "Header bare_request ''Content-Type'' = None"
    by (simp add: bare_request_def)
  have h1: "Header blockNumber_request ''Content-Type'' = Some [''application/json'', ''text/plain'']"
    by (simp add: blockNumber_request_def)
  have h2: "unreachable (ProviderUrl mainnet_proxy) ''application/json'' (Body blockNumber_request)
       = Inl ''dial tcp: connection refused''"
    by (simp add: unreachable_def)
  have a: "(Header bare_request ''Content-Type'' = None \<or> Header bare_request ''Content-Type'' = Some [])
             \<and> ''Request Content-Type header not specified'' = ''Request Content-Type header not specified''
         \<or> (\<exists>ct cts e. Header bare_request ''Content-Type'' = Some (ct # cts)
             \<and> reachable (ProviderUrl mainnet_proxy) ct (Body bare_request) = Inl e
             \<and> ''Request Content-Type header not specified'' = ''Error forwarding request to remote server: '' @ e)"
    using h0 by simp
  have b: "(Header blockNumber_request ''Content-Type'' = None \<or> Header blockNumber_request ''Content-Type'' = Some [])
             \<and> ''Error forwarding request to remote server: dial tcp: connection refused'' = ''Request Content-Type header not specified''
         \<or> (\<exists>ct cts e. Header blockNumber_request ''Content-Type'' = Some (ct # cts)
             \<and> unreachable (ProviderUrl mainnet_proxy) ct (Body blockNumber_request) = Inl e
             \<and> ''Error forwarding request to remote server: dial tcp: connection refused''
                 = ''Error forwarding request to remote server: '' @ e)"
    using h1 h2 by simp
  show ?thesis
    using h0 h1 h2
      ServeHTTP_error_paths_frame [where r = bare_request and net = reachable
        and p = mainnet_proxy and s = fresh_World
        and msg = "''Request Content-Type header not specified''", OF a]
      ServeHTTP_error_paths_frame [where r = blockNumber_request and net = unreachable
        and p = mainnet_proxy and s = fresh_World
        and msg = "''Error forwarding request to remote server: dial tcp: connection refused''", OF b]
    by (simp add: fresh_World_def Write_def WriteHeader_def StatusOK_def)
qed

subsection \<open>The forwarded content type\<close>

text \<open>
  Claim C9. When the request's \<^verbatim>\<open>Content-Type\<close> header has one or more values, the
  POST is issued with the first value as its content type; the other values are ignored:
  the handler does the same as for the request with the first value alone.
\<close>

theorem ServeHTTP_forwards_first_content_type:
  assumes "Header r ''Content-Type'' = Some (ct # cts)"
  shows "posts (ServeHTTP p net r s) = posts s @ [(ProviderUrl p, ct, Body r)]
       \<and> ServeHTTP p net r s
           = ServeHTTP p net (r\<lparr> Header := (Header r)(''Content-Type'' \<mapsto> [ct]) \<rparr>) s"
proof
  show "posts (ServeHTTP p net r s) = posts s @ [(ProviderUrl p, ct, Body r)]"
    using assms by (rule ServeHTTP_posts)
  have only: "Header (r\<lparr> Header := (Header r)(''Content-Type'' \<mapsto> [ct]) \<rparr>) ''Content-Type''
                = Some (ct # [])"
    by simp
  show "ServeHTTP p net r s
          = ServeHTTP p net (r\<lparr> Header := (Header r)(''Content-Type'' \<mapsto> [ct]) \<rparr>) s"
    by (simp add: ServeHTTP_present [OF assms] ServeHTTP_present [OF only]
        split: prod.splits sum.splits option.splits)
qed

theorem ServeHTTP_forwards_first_content_type_witness:
  "Header blockNumber_request ''Content-Type'' = Some [''application/json'', ''text/plain'']
   \<and> posts (ServeHTTP mainnet_proxy reachable blockNumber_request fresh_World)
       = [(''https://mainnet.infura.io/v3/abc123'', ''application/json'', ''[eth_blockNumber]'')]"
proof -
  have h1: "Header blockNumber_request ''Content-Type'' = Some (''application/json'' # [''text/plain''])"
    by (simp add: blockNumber_request_def)
  have url: "ProviderUrl mainnet_proxy = ''https://mainnet.infura.io/v3/abc123''"
    by (simp add: mainnet_proxy_def NewProxyServer_def INFURA_URL_def)
  have body: "Body blockNumber_request = ''[eth_blockNumber]''"
    by (simp add: blockNumber_request_def)
  show ?thesis
    using h1
      ServeHTTP_forwards_first_content_type [OF h1, of mainnet_proxy reachable fresh_World,
        THEN conjunct1]
    by (simp add: fresh_World_def url body)
qed

section \<open>Properties of the Geth cache size\<close>

lemma cache_steps_mono:
  fixes g1 g2 :: "64 word"
  assumes "g1 \<le> g2"
  shows "(if g1 = 0 then 0
          else if g1 < 9 then 256
          else if g1 < 13 then 2048
          else if g1 < 17 then 4096
          else if g1 < 25 then 8192
          else if g1 < 33 then 12288
          else (16384 :: 64 word))
       \<le> (if g2 = 0 then 0
          else if g2 < 9 then 256
          else if g2 < 13 then 2048
          else if g2 < 17 then 4096
          else if g2 < 25 then 8192
          else if g2 < 33 then 12288
          else 16384)"
  using assms by (auto simp: word_le_nat_alt word_less_nat_alt unat_eq_0)

text \<open>
  Claim C10. The cache size does not decrease when the total memory in whole GB grows:
  if the GB amount of \<open>m1\<close> is at most the GB amount of \<open>m2\<close>, the cache size for
  \<open>m1\<close> is at most the one for \<open>m2\<close>; and the result is always one of
  0, 256, 2048, 4096, 8192, 12288 and 16384 (MB).
\<close>

theorem calculateGethCache_monotone:
  "(m1 div 1024 div 1024 div 1024 \<le> m2 div 1024 div 1024 div 1024
      \<longrightarrow> calculateGethCache m1 \<le> calculateGethCache m2)
   \<and> calculateGethCache m1 \<in> {0, 256, 2048, 4096, 8192, 12288, 16384}"
proof
  show "m1 div 1024 div 1024 div 1024 \<le> m2 div 1024 div 1024 div 1024
      \<longrightarrow> calculateGethCache m1 \<le> calculateGethCache m2"
    unfolding calculateGethCache_def Let_def by (rule impI) (rule cache_steps_mono)
  show "calculateGethCache m1 \<in> {0, 256, 2048, 4096, 8192, 12288, 16384}"
    by (simp add: calculateGethCache_def Let_def)
qed

theorem calculateGethCache_monotone_witness:
  "(8589934592 :: 64 word) div 1024 div 1024 div 1024 \<le> 17179869184 div 1024 div 1024 div 1024
   \<and> calculateGethCache 8589934592 = 256
   \<and> calculateGethCache 17179869184 = 4096
   \<and> calculateGethCache 8589934592 \<le> calculateGethCache 17179869184"
  using calculateGethCache_monotone [of 8589934592 17179869184]
  by (simp add: calculateGethCache_def)

end
